theory Spec2Isabelle
  imports Main "HOL-Library.Word"
begin

section \<open>Data model of barrier.c\<close>

text \<open>
  The translation unit \<^verbatim>\<open>barrier.c\<close> includes \<^verbatim>\<open>pthread.h\<close> and
  \<^verbatim>\<open>implement.h\<close>, which declare its types and constants. The \<^verbatim>\<open>int\<close> codes the
  functions return are kept symbolic: \<open>OK\<close> is the source's \<^verbatim>\<open>0\<close>, every other
  constructor is a non-zero code, and \<open>EOTHER n\<close> stands for any further non-zero code
  that a collaborator (mutex, semaphore) may hand back.
\<close>

datatype retcode =
    OK
  | EINVAL
  | ENOMEM
  | EBUSY
  | ENOSYS
  | PTHREAD_BARRIER_SERIAL_THREAD
  | EOTHER nat

text \<open>
  The \<^verbatim>\<open>int pshared\<close> values: the two modes \<^verbatim>\<open>pthread.h\<close> names, and any other
  integer a caller may pass.
\<close>

datatype pshared_t =
    PTHREAD_PROCESS_PRIVATE
  | PTHREAD_PROCESS_SHARED
  | PSHARED_UNKNOWN int

text \<open>
  \<^verbatim>\<open>pthread_barrier_t\<close> and \<^verbatim>\<open>pthread_barrierattr_t\<close> are pointers to heap
  objects. A pointer value is the null pointer (which is also \<^verbatim>\<open>PTW32_OBJECT_INVALID\<close>,
  the value \<^verbatim>\<open>pthread_barrier_destroy\<close> stores), the sentinel
  \<^verbatim>\<open>PTW32_OBJECT_AUTO_INIT\<close> of a statically declared object (line 218 spells it
  \<^verbatim>\<open>PTHREAD_OBJECT_AUTO_INIT\<close>), or the address of a heap block.
\<close>

type_synonym addr = nat
type_synonym tid = nat

datatype pointer =
    NULL
  | PTW32_OBJECT_AUTO_INIT
  | Ptr addr

text \<open>
  Modelled from the spec: the mutex and the semaphore are collaborators, implemented
  outside this translation unit and given by their interface only. A mutex is invalid (a
  zeroed or destroyed \<^verbatim>\<open>pthread_mutex_t\<close>) or initialised with its owner, if any. A
  semaphore is invalid or initialised with the sharing mode it was created with and its
  count.
\<close>

datatype mutex_t =
    Mutex_invalid
  | Mutex "tid option"

datatype sem_t =
    Sem_invalid
  | Sem pshared_t int

text \<open>
  \<^verbatim>\<open>struct pthread_barrier_t_\<close>; the heights are \<^verbatim>\<open>LONG\<close>, 32 bits, read as signed.
  Line 236 spells the field \<^verbatim>\<open>InitialBarrierHeight\<close>; the structure has one initial
  height, \<open>nInitialBarrierHeight\<close>.
\<close>

record pthread_barrier_t_ =
  nCurrentBarrierHeight :: "32 word"
  nInitialBarrierHeight :: "32 word"
  mtxExclusiveAccess :: mutex_t
  semBarrierBreeched :: sem_t

record pthread_barrierattr_t_ =
  pshared :: pshared_t

text \<open>
  Memory: the variables of type \<^verbatim>\<open>pthread_barrier_t\<close> and \<^verbatim>\<open>pthread_barrierattr_t\<close>
  that callers pass by address, and the heap blocks of both structures. \<open>barrier_brk\<close>
  and \<open>attr_brk\<close> bound the addresses in use: every block lies below them. An address
  that \<^verbatim>\<open>free\<close> has released holds no block until \<^verbatim>\<open>calloc\<close> hands it out again;
  the access through a pointer to an address that holds no block is a fault.
\<close>

record memory =
  barrier_vars :: "nat \<Rightarrow> pointer"
  barriers :: "addr \<rightharpoonup> pthread_barrier_t_"
  barrier_brk :: addr
  attr_vars :: "nat \<Rightarrow> pointer"
  attrs :: "addr \<rightharpoonup> pthread_barrierattr_t_"
  attr_brk :: addr

text \<open>
  What the collaborators answer during one call: whether \<^verbatim>\<open>calloc\<close> succeeds, and the
  codes of \<^verbatim>\<open>pthread_mutex_init\<close>, \<^verbatim>\<open>sem_init\<close>, \<^verbatim>\<open>pthread_mutex_lock\<close> and
  \<^verbatim>\<open>sem_wait\<close> (for the last one the \<^verbatim>\<open>errno\<close> it leaves). The call of
  \<^verbatim>\<open>pthread_barrier_init\<close> on line 68 passes two arguments only, so the parameter
  \<^verbatim>\<open>count\<close> of the callee holds no value of the caller's: \<open>indeterminate_count\<close> is
  whatever it happens to hold there.
\<close>

record env =
  calloc_ok :: bool
  mutex_init_ret :: retcode
  sem_init_ret :: retcode
  mutex_lock_ret :: retcode
  sem_wait_errno :: retcode
  indeterminate_count :: "32 word"

text \<open>A call returns a code and the memory it leaves, or faults on an invalid access.\<close>

datatype 'a outcome =
    Fault
  | Return retcode 'a

section \<open>Functions without locks\<close>

subsection \<open>pthread\_barrier\_init (lines 86--137)\<close>

text \<open>
  \<^verbatim>\<open>if (attr != NULL && *attr != NULL) pshared = (*attr)->pshared;\<close>
  \<open>None\<close> is the fault of reading through a pointer that is no live attributes block.
\<close>

definition read_pshared :: "memory \<Rightarrow> nat option \<Rightarrow> pshared_t option" where
  "read_pshared m attr =
     (case attr of
        None \<Rightarrow> Some PTHREAD_PROCESS_PRIVATE
      | Some v \<Rightarrow>
          (case attr_vars m v of
             NULL \<Rightarrow> Some PTHREAD_PROCESS_PRIVATE
           | PTW32_OBJECT_AUTO_INIT \<Rightarrow> None
           | Ptr p \<Rightarrow> map_option pshared (attrs m p)))"

definition free_barrier :: "addr \<Rightarrow> memory \<Rightarrow> memory" where
  "free_barrier a m = m\<lparr>barriers := (barriers m)(a := None)\<rparr>"

definition store_barrier :: "addr \<Rightarrow> pthread_barrier_t_ \<Rightarrow> memory \<Rightarrow> memory" where
  "store_barrier a obj m = m\<lparr>barriers := (barriers m)(a \<mapsto> obj)\<rparr>"

text \<open>
  \<^verbatim>\<open>calloc\<close> hands out the lowest address that holds no block, so the address of a
  freed block is handed out again. \<open>first_free h a n\<close> searches the \<open>n\<close> addresses from
  \<open>a\<close> on and answers the address after them when they all hold blocks.
\<close>

fun first_free :: "(addr \<rightharpoonup> pthread_barrier_t_) \<Rightarrow> addr \<Rightarrow> nat \<Rightarrow> addr" where
  "first_free h a 0 = a"
| "first_free h a (Suc n) = (if h a = None then a else first_free h (Suc a) n)"

definition calloc_addr :: "memory \<Rightarrow> addr" where
  "calloc_addr m = first_free (barriers m) 0 (barrier_brk m)"

definition pthread_barrier_init ::
  "env \<Rightarrow> memory \<Rightarrow> nat option \<Rightarrow> nat option \<Rightarrow> 32 word \<Rightarrow> memory outcome" where
  "pthread_barrier_init e m barrier attr count =
     (if barrier = None then Return EINVAL m
      else if \<not> calloc_ok e then Return ENOMEM m
      else
        let a = calloc_addr m;
            b0 = \<lparr>nCurrentBarrierHeight = 0, nInitialBarrierHeight = 0,
                  mtxExclusiveAccess = Mutex_invalid, semBarrierBreeched = Sem_invalid\<rparr>;
            m1 = store_barrier a b0 (m\<lparr>barrier_brk := max (barrier_brk m) (Suc a)\<rparr>)
        in
          (case read_pshared m1 attr of
             None \<Rightarrow> Fault
           | Some psh \<Rightarrow>
               let b1 = b0\<lparr>nCurrentBarrierHeight := count, nInitialBarrierHeight := count\<rparr>
               in
                 if mutex_init_ret e \<noteq> OK
                 then Return (mutex_init_ret e) (free_barrier a (store_barrier a b1 m1))
                 else
                   let b2 = b1\<lparr>mtxExclusiveAccess := Mutex None\<rparr>
                   in
                     if sem_init_ret e \<noteq> OK
                     then Return (sem_init_ret e)
                            (free_barrier a
                               (store_barrier a (b2\<lparr>mtxExclusiveAccess := Mutex_invalid\<rparr>) m1))
                     else Return OK
                            (store_barrier a (b2\<lparr>semBarrierBreeched := Sem psh 0\<rparr>) m1)))"

subsection \<open>pthread\_barrierattr\_init (lines 283--326)\<close>

text \<open>
  The store \<^verbatim>\<open>ba->pshared = PTHREAD_PROCESS_PRIVATE\<close> on line 320 is not guarded by the
  test of line 315: with \<^verbatim>\<open>ba == NULL\<close> it writes through the null pointer.
\<close>

definition pthread_barrierattr_init :: "bool \<Rightarrow> memory \<Rightarrow> nat option \<Rightarrow> memory outcome" where
  "pthread_barrierattr_init alloc_ok m attr =
     (let ba = (if alloc_ok then Ptr (attr_brk m) else NULL);
          result = (if ba = NULL then ENOMEM else OK)
      in
        (case ba of
           Ptr p \<Rightarrow>
             let m1 = m\<lparr>attrs := (attrs m)(p \<mapsto> \<lparr>pshared = PTHREAD_PROCESS_PRIVATE\<rparr>),
                        attr_brk := Suc p\<rparr>
             in
               (case attr of
                  None \<Rightarrow> Fault
                | Some v \<Rightarrow> Return result (m1\<lparr>attr_vars := (attr_vars m1)(v := ba)\<rparr>))
         | _ \<Rightarrow> Fault))"

subsection \<open>pthread\_barrierattr\_setpshared (lines 437--516)\<close>

text \<open>
  \<open>posix_thread_process_shared\<close> says whether the build defines
  \<^verbatim>\<open>_POSIX_THREAD_PROCESS_SHARED\<close>.
\<close>

definition pthread_barrierattr_setpshared ::
  "bool \<Rightarrow> memory \<Rightarrow> nat option \<Rightarrow> pshared_t \<Rightarrow> memory outcome" where
  "pthread_barrierattr_setpshared posix_thread_process_shared m attr psh =
     (case attr of
        None \<Rightarrow> Return EINVAL m
      | Some v \<Rightarrow>
          if attr_vars m v \<noteq> NULL
             \<and> (psh = PTHREAD_PROCESS_SHARED \<or> psh = PTHREAD_PROCESS_PRIVATE)
          then
            let (result, psh') =
                  (if psh = PTHREAD_PROCESS_SHARED
                   then (if \<not> posix_thread_process_shared
                         then (ENOSYS, PTHREAD_PROCESS_PRIVATE)
                         else (OK, psh))
                   else (OK, psh))
            in
              (case attr_vars m v of
                 Ptr p \<Rightarrow>
                   (case attrs m p of
                      None \<Rightarrow> Fault
                    | Some ao \<Rightarrow> Return result (m\<lparr>attrs := (attrs m)(p \<mapsto> ao\<lparr>pshared := psh'\<rparr>)\<rparr>))
               | _ \<Rightarrow> Fault)
          else Return EINVAL m)"

section \<open>Functions that take locks: threads, statement by statement\<close>

text \<open>
  \<^verbatim>\<open>pthread_barrier_wait\<close> and \<^verbatim>\<open>pthread_barrier_destroy\<close> take locks and block, and
  other threads run between their statements. Each thread therefore carries a program
  counter named after the source line of the statement it executes next, the argument and
  the locals of the call it is in, and its cancellation context.
\<close>

datatype cancel_type =
    PTHREAD_CANCEL_DEFERRED
  | PTHREAD_CANCEL_ASYNCHRONOUS

datatype cancel_state =
    PTHREAD_CANCEL_ENABLE
  | PTHREAD_CANCEL_DISABLED

datatype pc =
    Idle
  | Ret retcode
  | Faulted
  | Cancelled
  | W213 | W218 | W220 | W226 | W228 | W231 | W233 | W234 | W235 | W243
  | W251 | W255 | W262 | W265 | W270 | W275 | W279
  | N56 | N66 | N80
  | D145 | D150 | D152 | D154 | D163 | D165 | D166 | D167 | D168
  | D176 | D181 | D200 | D203

text \<open>
  \<open>arg_barrier\<close> is the parameter \<^verbatim>\<open>barrier\<close> (\<open>None\<close> for a null pointer);
  \<open>loc_b\<close>, \<open>loc_result\<close>, \<open>loc_cancelType\<close> and \<open>loc_oldCancelState\<close> are the locals
  \<^verbatim>\<open>b\<close>, \<^verbatim>\<open>result\<close>, \<^verbatim>\<open>cancelType\<close> and \<^verbatim>\<open>oldCancelState\<close>;
  \<open>cleanup_stack\<close> holds, for every \<^verbatim>\<open>pthread_cleanup_push(pthread_mutex_unlock, ...)\<close>
  still open, the barrier whose mutex the handler unlocks; \<open>canceltype\<close> and
  \<open>cancelstate\<close> are the thread's cancellation type and state.
\<close>

record thread =
  pc :: pc
  arg_barrier :: "nat option"
  loc_b :: pointer
  loc_result :: retcode
  loc_cancelType :: cancel_type
  loc_oldCancelState :: cancel_state
  cleanup_stack :: "pointer list"
  canceltype :: cancel_type
  cancelstate :: cancel_state

text \<open>
  The process: its memory, the owner of the critical section
  \<^verbatim>\<open>ptw32_barrier_test_init_lock\<close>, and its threads.
\<close>

record sys =
  mem :: memory
  ptw32_barrier_test_init_lock :: "tid option"
  threads :: "tid \<Rightarrow> thread"

subsection \<open>Accessors\<close>

definition goto :: "pc \<Rightarrow> tid \<Rightarrow> sys \<Rightarrow> sys" where
  "goto p t s = s\<lparr>threads := (threads s)(t := (threads s t)\<lparr>pc := p\<rparr>)\<rparr>"

definition set_result :: "retcode \<Rightarrow> tid \<Rightarrow> sys \<Rightarrow> sys" where
  "set_result r t s = s\<lparr>threads := (threads s)(t := (threads s t)\<lparr>loc_result := r\<rparr>)\<rparr>"

definition set_mem :: "memory \<Rightarrow> sys \<Rightarrow> sys" where
  "set_mem m s = s\<lparr>mem := m\<rparr>"

text \<open>\<^verbatim>\<open>*barrier\<close>; \<open>None\<close> is the fault of reading through a null \<^verbatim>\<open>barrier\<close>.\<close>

definition deref_barrier :: "sys \<Rightarrow> tid \<Rightarrow> pointer option" where
  "deref_barrier s t = map_option (barrier_vars (mem s)) (arg_barrier (threads s t))"

text \<open>\<^verbatim>\<open>*barrier = NULL\<close>.\<close>

definition store_null :: "tid \<Rightarrow> sys \<Rightarrow> sys option" where
  "store_null t s =
     (case arg_barrier (threads s t) of
        None \<Rightarrow> None
      | Some v \<Rightarrow> Some (s\<lparr>mem := (mem s)\<lparr>barrier_vars := (barrier_vars (mem s))(v := NULL)\<rparr>\<rparr>))"

text \<open>The block a pointer refers to; \<open>None\<close> when it is not a live barrier block.\<close>

definition block_of :: "sys \<Rightarrow> pointer \<Rightarrow> (addr \<times> pthread_barrier_t_) option" where
  "block_of s p =
     (case p of
        Ptr a \<Rightarrow> (case barriers (mem s) a of None \<Rightarrow> None | Some obj \<Rightarrow> Some (a, obj))
      | _ \<Rightarrow> None)"

definition set_block :: "addr \<Rightarrow> pthread_barrier_t_ \<Rightarrow> sys \<Rightarrow> sys" where
  "set_block a obj s = s\<lparr>mem := store_barrier a obj (mem s)\<rparr>"

subsection \<open>The collaborators' operations\<close>

text \<open>
  Modelled from the spec: \<^verbatim>\<open>pthread_mutex_unlock\<close>, \<^verbatim>\<open>pthread_mutex_destroy\<close> and
  \<^verbatim>\<open>sem_post_multiple\<close> are not in this translation unit. Unlocking by thread \<open>t\<close>
  releases a mutex that \<open>t\<close> owns and leaves any other alone; destroying invalidates a
  mutex nobody owns; the bulk release adds its count to an initialised semaphore. Locking,
  trying to lock, waiting on the semaphore and the critical section are written out in the
  statements that call them.
\<close>

fun mutex_unlock :: "tid \<Rightarrow> mutex_t \<Rightarrow> mutex_t" where
  "mutex_unlock t (Mutex (Some t')) = (if t' = t then Mutex None else Mutex (Some t'))"
| "mutex_unlock t m = m"

fun mutex_destroy :: "mutex_t \<Rightarrow> mutex_t" where
  "mutex_destroy (Mutex None) = Mutex_invalid"
| "mutex_destroy m = m"

fun sem_post_multiple :: "int \<Rightarrow> sem_t \<Rightarrow> sem_t" where
  "sem_post_multiple n (Sem psh v) = Sem psh (v + n)"
| "sem_post_multiple n Sem_invalid = Sem_invalid"

text \<open>Unlocking the mutex of the barrier a pointer refers to, as a cleanup handler does.\<close>

definition unlock_at :: "tid \<Rightarrow> pointer \<Rightarrow> sys \<Rightarrow> sys option" where
  "unlock_at t p s =
     (case block_of s p of
        None \<Rightarrow> None
      | Some (a, obj) \<Rightarrow>
          Some (set_block a (obj\<lparr>mtxExclusiveAccess := mutex_unlock t (mtxExclusiveAccess obj)\<rparr>) s))"

fun run_cleanup :: "tid \<Rightarrow> pointer list \<Rightarrow> sys \<Rightarrow> sys" where
  "run_cleanup t [] s = s"
| "run_cleanup t (p # ps) s =
     run_cleanup t ps (case unlock_at t p s of None \<Rightarrow> s | Some s' \<Rightarrow> s')"

subsection \<open>Statements of pthread\_barrier\_wait (lines 207--280)\<close>

definition upd_thread :: "tid \<Rightarrow> (thread \<Rightarrow> thread) \<Rightarrow> sys \<Rightarrow> sys" where
  "upd_thread t f s = s\<lparr>threads := (threads s)(t := f (threads s t))\<rparr>"

definition fault :: "tid \<Rightarrow> sys \<Rightarrow> sys option" where
  "fault t s = Some (goto Faulted t s)"

text \<open>Line 213: \<^verbatim>\<open>if (barrier == NULL || *barrier == PTW32_OBJECT_INVALID) return EINVAL;\<close>\<close>

definition stmt_W213 :: "tid \<Rightarrow> sys \<Rightarrow> sys option" where
  "stmt_W213 t s =
     (case deref_barrier s t of
        None \<Rightarrow> Some (goto (Ret EINVAL) t s)
      | Some p \<Rightarrow> if p = NULL then Some (goto (Ret EINVAL) t s) else Some (goto W218 t s))"

text \<open>Line 218: \<^verbatim>\<open>if (*barrier == PTHREAD_OBJECT_AUTO_INIT)\<close> enters the helper.\<close>

definition stmt_W218 :: "tid \<Rightarrow> sys \<Rightarrow> sys option" where
  "stmt_W218 t s =
     (case deref_barrier s t of
        None \<Rightarrow> fault t s
      | Some p \<Rightarrow> Some (goto (if p = PTW32_OBJECT_AUTO_INIT then N56 else W226) t s))"

text \<open>
  \<^verbatim>\<open>ptw32_barrier_check_need_init\<close>, lines 33 and 56: \<^verbatim>\<open>result = 0\<close> and
  \<^verbatim>\<open>EnterCriticalSection\<close>, which waits while another thread is inside.
\<close>

definition stmt_N56 :: "tid \<Rightarrow> sys \<Rightarrow> sys option" where
  "stmt_N56 t s =
     (case ptw32_barrier_test_init_lock s of
        None \<Rightarrow>
          Some (goto N66 t (set_result OK t (s\<lparr>ptw32_barrier_test_init_lock := Some t\<rparr>)))
      | Some _ \<Rightarrow> None)"

text \<open>
  Lines 66--78: the test repeated inside the critical section. The call on line 68 is
  \<^verbatim>\<open>pthread_barrier_init(barrier, NULL)\<close>: the callee's third parameter receives nothing
  from the helper and holds \<open>indeterminate_count e\<close>.
\<close>

definition stmt_N66 :: "env \<Rightarrow> tid \<Rightarrow> sys \<Rightarrow> sys option" where
  "stmt_N66 e t s =
     (case deref_barrier s t of
        None \<Rightarrow> fault t s
      | Some p \<Rightarrow>
          if p = PTW32_OBJECT_AUTO_INIT
          then (case pthread_barrier_init e (mem s) (arg_barrier (threads s t)) None
                       (indeterminate_count e) of
                  Fault \<Rightarrow> fault t s
                | Return r m' \<Rightarrow> Some (goto N80 t (set_result r t (set_mem m' s))))
          else if p = NULL then Some (goto N80 t (set_result EINVAL t s))
          else Some (goto N80 t s))"

text \<open>Lines 80--82: \<^verbatim>\<open>LeaveCriticalSection\<close> and \<^verbatim>\<open>return(result)\<close> to line 220.\<close>

definition stmt_N80 :: "tid \<Rightarrow> sys \<Rightarrow> sys option" where
  "stmt_N80 t s =
     Some (goto W220 t
       (if ptw32_barrier_test_init_lock s = Some t
        then s\<lparr>ptw32_barrier_test_init_lock := None\<rparr> else s))"

text \<open>Line 220: a non-zero result of the helper is returned.\<close>

definition stmt_W220 :: "tid \<Rightarrow> sys \<Rightarrow> sys option" where
  "stmt_W220 t s =
     (if loc_result (threads s t) \<noteq> OK
      then Some (goto (Ret (loc_result (threads s t))) t s)
      else Some (goto W226 t s))"

text \<open>Line 226: \<^verbatim>\<open>b = *barrier;\<close>\<close>

definition stmt_W226 :: "tid \<Rightarrow> sys \<Rightarrow> sys option" where
  "stmt_W226 t s =
     (case deref_barrier s t of
        None \<Rightarrow> fault t s
      | Some p \<Rightarrow> Some (upd_thread t (\<lambda>th. th\<lparr>loc_b := p, pc := W228\<rparr>) s))"

text \<open>
  Lines 228--229: \<^verbatim>\<open>result = pthread_mutex_lock(b->mtxExclusiveAccess)\<close>. Here and on
  line 234 the argument is written without the \<^verbatim>\<open>&\<close> that lines 154, 166, 167 and 263
  have; it designates the mutex of the barrier all the same. The call fails with the
  collaborator's code, or with \<open>EINVAL\<close> on an invalid mutex; otherwise it takes a free
  mutex and waits on one that is owned.
\<close>

definition stmt_W228 :: "env \<Rightarrow> tid \<Rightarrow> sys \<Rightarrow> sys option" where
  "stmt_W228 e t s =
     (case block_of s (loc_b (threads s t)) of
        None \<Rightarrow> fault t s
      | Some (a, obj) \<Rightarrow>
          if mutex_lock_ret e \<noteq> OK
          then Some (goto W279 t (set_result (mutex_lock_ret e) t s))
          else
            (case mtxExclusiveAccess obj of
               Mutex_invalid \<Rightarrow> Some (goto W279 t (set_result EINVAL t s))
             | Mutex None \<Rightarrow>
                 Some (goto W231 t (set_result OK t
                   (set_block a (obj\<lparr>mtxExclusiveAccess := Mutex (Some t)\<rparr>) s)))
             | Mutex (Some _) \<Rightarrow> None))"

text \<open>Line 231: \<^verbatim>\<open>if (0 == --(b->nCurrentBarrierHeight))\<close>\<close>

definition stmt_W231 :: "tid \<Rightarrow> sys \<Rightarrow> sys option" where
  "stmt_W231 t s =
     (case block_of s (loc_b (threads s t)) of
        None \<Rightarrow> fault t s
      | Some (a, obj) \<Rightarrow>
          let h = nCurrentBarrierHeight obj - 1
          in Some (goto (if h = 0 then W233 else W251) t
                     (set_block a (obj\<lparr>nCurrentBarrierHeight := h\<rparr>) s)))"

text \<open>Line 233: \<^verbatim>\<open>b->nCurrentBarrierHeight = b->nInitialBarrierHeight;\<close>\<close>

definition stmt_W233 :: "tid \<Rightarrow> sys \<Rightarrow> sys option" where
  "stmt_W233 t s =
     (case block_of s (loc_b (threads s t)) of
        None \<Rightarrow> fault t s
      | Some (a, obj) \<Rightarrow>
          Some (goto W234 t
            (set_block a (obj\<lparr>nCurrentBarrierHeight := nInitialBarrierHeight obj\<rparr>) s)))"

text \<open>Line 234: \<^verbatim>\<open>(void) pthread_mutex_unlock(b->mtxExclusiveAccess);\<close>\<close>

definition stmt_W234 :: "tid \<Rightarrow> sys \<Rightarrow> sys option" where
  "stmt_W234 t s =
     (case unlock_at t (loc_b (threads s t)) s of
        None \<Rightarrow> fault t s
      | Some s' \<Rightarrow> Some (goto W235 t s'))"

text \<open>
  Lines 235--236:
  \<^verbatim>\<open>(void) sem_post_multiple(&(b->semBarrierBreeched), b->InitialBarrierHeight);\<close>
\<close>

definition stmt_W235 :: "tid \<Rightarrow> sys \<Rightarrow> sys option" where
  "stmt_W235 t s =
     (case block_of s (loc_b (threads s t)) of
        None \<Rightarrow> fault t s
      | Some (a, obj) \<Rightarrow>
          Some (goto W243 t
            (set_block a
               (obj\<lparr>semBarrierBreeched :=
                      sem_post_multiple (sint (nInitialBarrierHeight obj))
                        (semBarrierBreeched obj)\<rparr>) s)))"

text \<open>Line 243: \<^verbatim>\<open>result = PTHREAD_BARRIER_SERIAL_THREAD;\<close>\<close>

definition stmt_W243 :: "tid \<Rightarrow> sys \<Rightarrow> sys option" where
  "stmt_W243 t s = Some (goto W279 t (set_result PTHREAD_BARRIER_SERIAL_THREAD t s))"

text \<open>Lines 251--252: \<^verbatim>\<open>cancelType = pthread_getcanceltype(self);\<close>\<close>

definition stmt_W251 :: "tid \<Rightarrow> sys \<Rightarrow> sys option" where
  "stmt_W251 t s =
     Some (upd_thread t (\<lambda>th. th\<lparr>loc_cancelType := canceltype th, pc := W255\<rparr>) s)"

text \<open>
  Lines 255--259: \<^verbatim>\<open>if (cancelType == PTHREAD_CANCEL_DEFERRED)
  oldCancelState = pthread_setcancelstate(self, PTHREAD_CANCEL_DISABLED);\<close>
\<close>

definition stmt_W255 :: "tid \<Rightarrow> sys \<Rightarrow> sys option" where
  "stmt_W255 t s =
     Some (upd_thread t
       (\<lambda>th. if loc_cancelType th = PTHREAD_CANCEL_DEFERRED
             then th\<lparr>loc_oldCancelState := cancelstate th,
                     cancelstate := PTHREAD_CANCEL_DISABLED, pc := W262\<rparr>
             else th\<lparr>pc := W262\<rparr>) s)"

text \<open>
  Lines 262--263:
  \<^verbatim>\<open>pthread_cleanup_push(pthread_mutex_unlock, (void *) &(b->mtxExclusiveAccess));\<close>
\<close>

definition stmt_W262 :: "tid \<Rightarrow> sys \<Rightarrow> sys option" where
  "stmt_W262 t s =
     Some (upd_thread t (\<lambda>th. th\<lparr>cleanup_stack := loc_b th # cleanup_stack th, pc := W265\<rparr>) s)"

text \<open>
  Lines 265--268: \<^verbatim>\<open>if (0 != sem_wait(&(b->semBarrierBreeched))) result = errno;\<close>
  The call fails with the collaborator's \<^verbatim>\<open>errno\<close>, or with \<open>EINVAL\<close> on an invalid
  semaphore; otherwise it takes one count, and waits while the count is not positive.
\<close>

definition stmt_W265 :: "env \<Rightarrow> tid \<Rightarrow> sys \<Rightarrow> sys option" where
  "stmt_W265 e t s =
     (case block_of s (loc_b (threads s t)) of
        None \<Rightarrow> fault t s
      | Some (a, obj) \<Rightarrow>
          if sem_wait_errno e \<noteq> OK
          then Some (goto W270 t (set_result (sem_wait_errno e) t s))
          else
            (case semBarrierBreeched obj of
               Sem_invalid \<Rightarrow> Some (goto W270 t (set_result EINVAL t s))
             | Sem psh v \<Rightarrow>
                 if 0 < v
                 then Some (goto W270 t (set_block a (obj\<lparr>semBarrierBreeched := Sem psh (v - 1)\<rparr>) s))
                 else None))"

text \<open>
  Lines 270--273: \<^verbatim>\<open>if (cancelType == PTHREAD_CANCEL_DEFERRED)
  pthread_setcancelstate(self, oldCancelState);\<close>
\<close>

definition stmt_W270 :: "tid \<Rightarrow> sys \<Rightarrow> sys option" where
  "stmt_W270 t s =
     Some (upd_thread t
       (\<lambda>th. if loc_cancelType th = PTHREAD_CANCEL_DEFERRED
             then th\<lparr>cancelstate := loc_oldCancelState th, pc := W275\<rparr>
             else th\<lparr>pc := W275\<rparr>) s)"

text \<open>Line 275: \<^verbatim>\<open>pthread_cleanup_pop(1);\<close> takes the handler off and runs it.\<close>

definition stmt_W275 :: "tid \<Rightarrow> sys \<Rightarrow> sys option" where
  "stmt_W275 t s =
     (case cleanup_stack (threads s t) of
        [] \<Rightarrow> fault t s
      | p # ps \<Rightarrow>
          (case unlock_at t p s of
             None \<Rightarrow> fault t s
           | Some s' \<Rightarrow> Some (upd_thread t (\<lambda>th. th\<lparr>cleanup_stack := ps, pc := W279\<rparr>) s')))"

text \<open>Line 279: \<^verbatim>\<open>return(result);\<close>\<close>

definition stmt_W279 :: "tid \<Rightarrow> sys \<Rightarrow> sys option" where
  "stmt_W279 t s = Some (goto (Ret (loc_result (threads s t))) t s)"

subsection \<open>Statements of pthread\_barrier\_destroy (lines 139--204)\<close>

text \<open>Line 145: \<^verbatim>\<open>if (barrier == NULL || *barrier == PTW32_OBJECT_INVALID) return EINVAL;\<close>\<close>

definition stmt_D145 :: "tid \<Rightarrow> sys \<Rightarrow> sys option" where
  "stmt_D145 t s =
     (case deref_barrier s t of
        None \<Rightarrow> Some (goto (Ret EINVAL) t s)
      | Some p \<Rightarrow> if p = NULL then Some (goto (Ret EINVAL) t s) else Some (goto D150 t s))"

text \<open>Line 150: \<^verbatim>\<open>if (*barrier != PTW32_OBJECT_AUTO_INIT)\<close>\<close>

definition stmt_D150 :: "tid \<Rightarrow> sys \<Rightarrow> sys option" where
  "stmt_D150 t s =
     (case deref_barrier s t of
        None \<Rightarrow> fault t s
      | Some p \<Rightarrow> Some (goto (if p \<noteq> PTW32_OBJECT_AUTO_INIT then D152 else D176) t s))"

text \<open>Line 152: \<^verbatim>\<open>b = *barrier;\<close>\<close>

definition stmt_D152 :: "tid \<Rightarrow> sys \<Rightarrow> sys option" where
  "stmt_D152 t s =
     (case deref_barrier s t of
        None \<Rightarrow> fault t s
      | Some p \<Rightarrow> Some (upd_thread t (\<lambda>th. th\<lparr>loc_b := p, pc := D154\<rparr>) s))"

text \<open>
  Line 154: \<^verbatim>\<open>if (0 == pthread_mutex_trylock(&b->mtxExclusiveAccess))\<close>. The try takes a
  free mutex and answers 0; on an owned or invalid mutex it answers a non-zero code and the
  body is skipped.
\<close>

definition stmt_D154 :: "tid \<Rightarrow> sys \<Rightarrow> sys option" where
  "stmt_D154 t s =
     (case block_of s (loc_b (threads s t)) of
        None \<Rightarrow> fault t s
      | Some (a, obj) \<Rightarrow>
          (case mtxExclusiveAccess obj of
             Mutex None \<Rightarrow>
               Some (goto D163 t (set_block a (obj\<lparr>mtxExclusiveAccess := Mutex (Some t)\<rparr>) s))
           | _ \<Rightarrow> Some (goto D203 t s)))"

text \<open>Line 163: \<^verbatim>\<open>*barrier = NULL;\<close>\<close>

definition stmt_D163 :: "tid \<Rightarrow> sys \<Rightarrow> sys option" where
  "stmt_D163 t s =
     (case store_null t s of
        None \<Rightarrow> fault t s
      | Some s' \<Rightarrow> Some (goto D165 t s'))"

text \<open>Line 165: \<^verbatim>\<open>(void) sem_destroy(&(b->semBarrierBreeched));\<close>\<close>

definition stmt_D165 :: "tid \<Rightarrow> sys \<Rightarrow> sys option" where
  "stmt_D165 t s =
     (case block_of s (loc_b (threads s t)) of
        None \<Rightarrow> fault t s
      | Some (a, obj) \<Rightarrow>
          Some (goto D166 t (set_block a (obj\<lparr>semBarrierBreeched := Sem_invalid\<rparr>) s)))"

text \<open>Line 166: \<^verbatim>\<open>(void) pthread_mutex_unlock(&(b->mtxExclusiveAccess));\<close>\<close>

definition stmt_D166 :: "tid \<Rightarrow> sys \<Rightarrow> sys option" where
  "stmt_D166 t s =
     (case unlock_at t (loc_b (threads s t)) s of
        None \<Rightarrow> fault t s
      | Some s' \<Rightarrow> Some (goto D167 t s'))"

text \<open>Line 167: \<^verbatim>\<open>(void) pthread_mutex_destroy(&(b->mtxExclusiveAccess));\<close>\<close>

definition stmt_D167 :: "tid \<Rightarrow> sys \<Rightarrow> sys option" where
  "stmt_D167 t s =
     (case block_of s (loc_b (threads s t)) of
        None \<Rightarrow> fault t s
      | Some (a, obj) \<Rightarrow>
          Some (goto D168 t
            (set_block a (obj\<lparr>mtxExclusiveAccess := mutex_destroy (mtxExclusiveAccess obj)\<rparr>) s)))"

text \<open>Line 168: \<^verbatim>\<open>(void) free(b);\<close>\<close>

definition stmt_D168 :: "tid \<Rightarrow> sys \<Rightarrow> sys option" where
  "stmt_D168 t s =
     (case block_of s (loc_b (threads s t)) of
        None \<Rightarrow> fault t s
      | Some (a, obj) \<Rightarrow> Some (goto D203 t (set_mem (free_barrier a (mem s)) s)))"

text \<open>Line 176: \<^verbatim>\<open>EnterCriticalSection(&ptw32_barrier_test_init_lock);\<close>\<close>

definition stmt_D176 :: "tid \<Rightarrow> sys \<Rightarrow> sys option" where
  "stmt_D176 t s =
     (case ptw32_barrier_test_init_lock s of
        None \<Rightarrow> Some (goto D181 t (s\<lparr>ptw32_barrier_test_init_lock := Some t\<rparr>))
      | Some _ \<Rightarrow> None)"

text \<open>
  Lines 181--198: \<^verbatim>\<open>if (*barrier == PTW32_OBJECT_AUTO_INIT) *barrier = NULL;
  else result = EBUSY;\<close>
\<close>

definition stmt_D181 :: "tid \<Rightarrow> sys \<Rightarrow> sys option" where
  "stmt_D181 t s =
     (case deref_barrier s t of
        None \<Rightarrow> fault t s
      | Some p \<Rightarrow>
          if p = PTW32_OBJECT_AUTO_INIT
          then (case store_null t s of None \<Rightarrow> fault t s | Some s' \<Rightarrow> Some (goto D200 t s'))
          else Some (goto D200 t (set_result EBUSY t s)))"

text \<open>Line 200: \<^verbatim>\<open>LeaveCriticalSection(&ptw32_barrier_test_init_lock);\<close>\<close>

definition stmt_D200 :: "tid \<Rightarrow> sys \<Rightarrow> sys option" where
  "stmt_D200 t s =
     Some (goto D203 t
       (if ptw32_barrier_test_init_lock s = Some t
        then s\<lparr>ptw32_barrier_test_init_lock := None\<rparr> else s))"

text \<open>Line 203: \<^verbatim>\<open>return(result);\<close>\<close>

definition stmt_D203 :: "tid \<Rightarrow> sys \<Rightarrow> sys option" where
  "stmt_D203 t s = Some (goto (Ret (loc_result (threads s t))) t s)"

subsection \<open>Steps of the process\<close>

text \<open>The statement a program counter stands for. A thread outside a call has none.\<close>

fun stmt :: "env \<Rightarrow> pc \<Rightarrow> tid \<Rightarrow> sys \<Rightarrow> sys option" where
  "stmt e W213 t s = stmt_W213 t s"
| "stmt e W218 t s = stmt_W218 t s"
| "stmt e W220 t s = stmt_W220 t s"
| "stmt e W226 t s = stmt_W226 t s"
| "stmt e W228 t s = stmt_W228 e t s"
| "stmt e W231 t s = stmt_W231 t s"
| "stmt e W233 t s = stmt_W233 t s"
| "stmt e W234 t s = stmt_W234 t s"
| "stmt e W235 t s = stmt_W235 t s"
| "stmt e W243 t s = stmt_W243 t s"
| "stmt e W251 t s = stmt_W251 t s"
| "stmt e W255 t s = stmt_W255 t s"
| "stmt e W262 t s = stmt_W262 t s"
| "stmt e W265 t s = stmt_W265 e t s"
| "stmt e W270 t s = stmt_W270 t s"
| "stmt e W275 t s = stmt_W275 t s"
| "stmt e W279 t s = stmt_W279 t s"
| "stmt e N56 t s = stmt_N56 t s"
| "stmt e N66 t s = stmt_N66 e t s"
| "stmt e N80 t s = stmt_N80 t s"
| "stmt e D145 t s = stmt_D145 t s"
| "stmt e D150 t s = stmt_D150 t s"
| "stmt e D152 t s = stmt_D152 t s"
| "stmt e D154 t s = stmt_D154 t s"
| "stmt e D163 t s = stmt_D163 t s"
| "stmt e D165 t s = stmt_D165 t s"
| "stmt e D166 t s = stmt_D166 t s"
| "stmt e D167 t s = stmt_D167 t s"
| "stmt e D168 t s = stmt_D168 t s"
| "stmt e D176 t s = stmt_D176 t s"
| "stmt e D181 t s = stmt_D181 t s"
| "stmt e D200 t s = stmt_D200 t s"
| "stmt e D203 t s = stmt_D203 t s"
| "stmt e Idle t s = None"
| "stmt e (Ret r) t s = None"
| "stmt e Faulted t s = None"
| "stmt e Cancelled t s = None"

text \<open>
  Modelled from the spec: the cancellation machinery is not in this translation unit. A
  cancellation request is honoured only while the thread is blocked on the semaphore
  (line 265) and only when its cancellation state is enabled; the handlers on the cleanup
  stack run and the thread ends.
\<close>

definition cancel :: "tid \<Rightarrow> sys \<Rightarrow> sys option" where
  "cancel t s =
     (if pc (threads s t) = W265 \<and> cancelstate (threads s t) = PTHREAD_CANCEL_ENABLE
      then Some (upd_thread t (\<lambda>th. th\<lparr>cleanup_stack := [], pc := Cancelled\<rparr>)
                   (run_cleanup t (cleanup_stack (threads s t)) s))
      else None)"

text \<open>
  What a thread does next: it enters a call when it is outside one, executes the next
  statement of the call it is in, or is cancelled. \<^verbatim>\<open>pthread_barrier_init\<close> takes no lock
  and touches only the block it allocates, so it is one step. \<^verbatim>\<open>pthread_barrier_destroy\<close>
  starts with \<^verbatim>\<open>result = 0\<close> (line 142).
\<close>

datatype choice =
    Call_init "nat option" "nat option" "32 word"
  | Call_destroy "nat option"
  | Call_wait "nat option"
  | Stmt
  | Cancel

fun callable :: "pc \<Rightarrow> bool" where
  "callable Idle = True"
| "callable (Ret r) = True"
| "callable p = False"

definition step :: "env \<Rightarrow> choice \<Rightarrow> tid \<Rightarrow> sys \<Rightarrow> sys option" where
  "step e c t s =
     (case c of
        Call_init barrier attr count \<Rightarrow>
          if callable (pc (threads s t))
          then (case pthread_barrier_init e (mem s) barrier attr count of
                  Fault \<Rightarrow> fault t s
                | Return r m' \<Rightarrow> Some (goto (Ret r) t (set_mem m' s)))
          else None
      | Call_destroy barrier \<Rightarrow>
          if callable (pc (threads s t))
          then Some (upd_thread t
                 (\<lambda>th. th\<lparr>arg_barrier := barrier, loc_result := OK, pc := D145\<rparr>) s)
          else None
      | Call_wait barrier \<Rightarrow>
          if callable (pc (threads s t))
          then Some (upd_thread t (\<lambda>th. th\<lparr>arg_barrier := barrier, pc := W213\<rparr>) s)
          else None
      | Stmt \<Rightarrow> stmt e (pc (threads s t)) t s
      | Cancel \<Rightarrow> cancel t s)"

text \<open>A schedule: which thread moves, how, and what the collaborators answer.\<close>

fun run :: "(env \<times> choice \<times> tid) list \<Rightarrow> sys \<Rightarrow> sys option" where
  "run [] s = Some s"
| "run ((e, c, t) # sched) s =
     (case step e c t s of None \<Rightarrow> None | Some s' \<Rightarrow> run sched s')"

text \<open>A thread running alone: its choices, all with the same answers of the collaborators.\<close>

definition alone :: "env \<Rightarrow> tid \<Rightarrow> choice list \<Rightarrow> (env \<times> choice \<times> tid) list" where
  "alone e t cs = map (\<lambda>c. (e, c, t)) cs"

subsection \<open>Cancellation\<close>

text \<open>Asynchronous cancellation can be delivered to a thread.\<close>

definition async_cancel_deliverable :: "thread \<Rightarrow> bool" where
  "async_cancel_deliverable th \<longleftrightarrow>
     canceltype th = PTHREAD_CANCEL_ASYNCHRONOUS \<and> cancelstate th = PTHREAD_CANCEL_ENABLE"

subsection \<open>Concrete inputs\<close>

definition all_ok :: env where
  "all_ok = \<lparr>calloc_ok = True, mutex_init_ret = OK, sem_init_ret = OK,
             mutex_lock_ret = OK, sem_wait_errno = OK, indeterminate_count = 2\<rparr>"

fun static_vars :: "nat \<Rightarrow> pointer" where
  "static_vars v = PTW32_OBJECT_AUTO_INIT"

text \<open>A memory without blocks whose variables are all statically initialised.\<close>

definition mem0 :: memory where
  "mem0 = \<lparr>barrier_vars = static_vars, barriers = Map.empty, barrier_brk = 0,
           attr_vars = static_vars, attrs = Map.empty, attr_brk = 0\<rparr>"

text \<open>The block \<^verbatim>\<open>pthread_barrier_init\<close> builds for a count, without attributes.\<close>

definition fresh_block :: "32 word \<Rightarrow> pthread_barrier_t_" where
  "fresh_block n =
     \<lparr>nCurrentBarrierHeight = n, nInitialBarrierHeight = n,
      mtxExclusiveAccess = Mutex None, semBarrierBreeched = Sem PTHREAD_PROCESS_PRIVATE 0\<rparr>"

text \<open>
  A memory with one barrier of height \<open>n\<close> at address 0 and one attributes block at
  address 0: variable 0 refers to the block, variable 1 is null, the others are
  statically initialised.
\<close>

fun some_vars :: "nat \<Rightarrow> pointer" where
  "some_vars 0 = Ptr 0"
| "some_vars (Suc 0) = NULL"
| "some_vars v = PTW32_OBJECT_AUTO_INIT"

definition mem1 :: "pthread_barrier_t_ \<Rightarrow> memory" where
  "mem1 obj =
     \<lparr>barrier_vars = some_vars, barriers = [0 \<mapsto> obj], barrier_brk = 1,
      attr_vars = some_vars, attrs = [0 \<mapsto> \<lparr>pshared = PTHREAD_PROCESS_PRIVATE\<rparr>],
      attr_brk = 1\<rparr>"

definition idle_thread :: thread where
  "idle_thread =
     \<lparr>pc = Idle, arg_barrier = None, loc_b = NULL, loc_result = OK,
      loc_cancelType = PTHREAD_CANCEL_DEFERRED, loc_oldCancelState = PTHREAD_CANCEL_ENABLE,
      cleanup_stack = [], canceltype = PTHREAD_CANCEL_DEFERRED,
      cancelstate = PTHREAD_CANCEL_ENABLE\<rparr>"

fun idle_threads :: "tid \<Rightarrow> thread" where
  "idle_threads t = idle_thread"

text \<open>The same threads, all of asynchronous cancellation type.\<close>

fun async_threads :: "tid \<Rightarrow> thread" where
  "async_threads t = idle_thread\<lparr>canceltype := PTHREAD_CANCEL_ASYNCHRONOUS\<rparr>"

definition sys0 :: sys where
  "sys0 = \<lparr>mem = mem0, ptw32_barrier_test_init_lock = None, threads = idle_threads\<rparr>"

definition sys1 :: "pthread_barrier_t_ \<Rightarrow> sys" where
  "sys1 obj = \<lparr>mem = mem1 obj, ptw32_barrier_test_init_lock = None, threads = idle_threads\<rparr>"

definition sys_async :: sys where
  "sys_async =
     \<lparr>mem = mem1 (fresh_block 2), ptw32_barrier_test_init_lock = None,
      threads = async_threads\<rparr>"

text \<open>A barrier of height 2 whose mutex thread 1 owns.\<close>

definition busy_block :: pthread_barrier_t_ where
  "busy_block = fresh_block 2\<lparr>mtxExclusiveAccess := Mutex (Some 1)\<rparr>"

text \<open>
  Thread 0 of \<open>sys_async\<close> after entering \<^verbatim>\<open>pthread_barrier_wait\<close> on variable 0 and
  executing up to the \<^verbatim>\<open>sem_wait\<close> of line 265.
\<close>

definition blocked_async :: sys where
  "blocked_async =
     \<lparr>mem = mem1 (fresh_block 2\<lparr>mtxExclusiveAccess := Mutex (Some 0), nCurrentBarrierHeight := 1\<rparr>),
      ptw32_barrier_test_init_lock = None,
      threads = async_threads(0 := idle_thread\<lparr>canceltype := PTHREAD_CANCEL_ASYNCHRONOUS,
         arg_barrier := Some 0, loc_b := Ptr 0, loc_result := OK,
         loc_cancelType := PTHREAD_CANCEL_ASYNCHRONOUS,
         cleanup_stack := [Ptr 0], pc := W265\<rparr>)\<rparr>"

text \<open>
  A barrier of height 3 at which two threads have arrived, and the same barrier after the
  third arrival: heights reset, mutex free, three counts on the semaphore.
\<close>

definition late_block :: pthread_barrier_t_ where
  "late_block =
     \<lparr>nCurrentBarrierHeight = 1, nInitialBarrierHeight = 3,
      mtxExclusiveAccess = Mutex None, semBarrierBreeched = Sem PTHREAD_PROCESS_PRIVATE 0\<rparr>"

definition served_block :: pthread_barrier_t_ where
  "served_block =
     \<lparr>nCurrentBarrierHeight = 3, nInitialBarrierHeight = 3,
      mtxExclusiveAccess = Mutex None, semBarrierBreeched = Sem PTHREAD_PROCESS_PRIVATE 3\<rparr>"

text \<open>\<open>sys1 late_block\<close> after thread 0 has run \<^verbatim>\<open>pthread_barrier_wait\<close> to its return.\<close>

definition sys_served :: sys where
  "sys_served =
     \<lparr>mem = mem1 served_block, ptw32_barrier_test_init_lock = None,
      threads = idle_threads(0 := idle_thread\<lparr>arg_barrier := Some 0, loc_b := Ptr 0,
         loc_result := PTHREAD_BARRIER_SERIAL_THREAD,
         pc := Ret PTHREAD_BARRIER_SERIAL_THREAD\<rparr>)\<rparr>"

text \<open>
  Thread 0 enters \<^verbatim>\<open>ptw32_barrier_check_need_init\<close> for variable 2, which is statically
  initialised and which no one has used yet; and the state in which it leaves the helper
  when the parameter \<^verbatim>\<open>count\<close> of the callee held \<open>c\<close>.
\<close>

definition sys_N56 :: sys where
  "sys_N56 =
     \<lparr>mem = mem1 (fresh_block 2), ptw32_barrier_test_init_lock = None,
      threads = idle_threads(0 := idle_thread\<lparr>pc := N56, arg_barrier := Some 2\<rparr>)\<rparr>"

definition sys_N56_done :: "32 word \<Rightarrow> sys" where
  "sys_N56_done c =
     \<lparr>mem = (mem1 (fresh_block 2))
              \<lparr>barriers := [0 \<mapsto> fresh_block 2, 1 \<mapsto> fresh_block c], barrier_brk := 2\<rparr>,
      ptw32_barrier_test_init_lock = None,
      threads = idle_threads(0 := idle_thread\<lparr>pc := W220, arg_barrier := Some 2\<rparr>)\<rparr>"

text \<open>
  A barrier of height 2 whose mutex thread 0 has just locked on line 228, no thread having
  arrived before; the semaphore holds no count.
\<close>

definition waiting_block :: pthread_barrier_t_ where
  "waiting_block =
     \<lparr>nCurrentBarrierHeight = 2, nInitialBarrierHeight = 2,
      mtxExclusiveAccess = Mutex (Some 0), semBarrierBreeched = Sem PTHREAD_PROCESS_PRIVATE 0\<rparr>"

definition sys_W231 :: sys where
  "sys_W231 =
     \<lparr>mem = mem1 waiting_block, ptw32_barrier_test_init_lock = None,
      threads = idle_threads(0 := idle_thread\<lparr>pc := W231, arg_barrier := Some 0,
                                                loc_b := Ptr 0\<rparr>)\<rparr>"

text \<open>
  Thread 0 of \<open>sys_W231\<close> at the \<^verbatim>\<open>sem_wait\<close> of line 265, the semaphore holding
  \<open>n\<close> counts.
\<close>

definition sys_W265 :: "int \<Rightarrow> sys" where
  "sys_W265 n =
     \<lparr>mem = mem1 (waiting_block\<lparr>nCurrentBarrierHeight := 1,
                semBarrierBreeched := Sem PTHREAD_PROCESS_PRIVATE n\<rparr>),
      ptw32_barrier_test_init_lock = None,
      threads = idle_threads(0 := idle_thread\<lparr>pc := W265, arg_barrier := Some 0,
         loc_b := Ptr 0, cleanup_stack := [Ptr 0],
         cancelstate := PTHREAD_CANCEL_DISABLED\<rparr>)\<rparr>"

text \<open>
  A schedule of four threads on variable 0, which holds a barrier of height 1. Thread 0
  waits, is the last arrival, and stands before the \<^verbatim>\<open>sem_post_multiple\<close> of line 235;
  threads 1 and 3 enter \<^verbatim>\<open>pthread_barrier_wait\<close> and read \<^verbatim>\<open>b = *barrier\<close> on line 226;
  thread 2 runs \<^verbatim>\<open>pthread_barrier_destroy\<close> up to the unlock of line 166; thread 1 locks
  the mutex (line 228); thread 2 finishes (line 167 fails on the owned mutex, line 168 frees
  the block) and then builds a new barrier of height 1, which \<^verbatim>\<open>calloc\<close> places at the
  address just freed. No collaborator fails.
\<close>

definition sched_reuse :: "(env \<times> choice \<times> tid) list" where
  "sched_reuse =
     alone all_ok 0 (Call_wait (Some 0) # replicate 7 Stmt)
     @ alone all_ok 1 (Call_wait (Some 0) # replicate 3 Stmt)
     @ alone all_ok 3 (Call_wait (Some 0) # replicate 3 Stmt)
     @ alone all_ok 2 (Call_destroy (Some 0) # replicate 7 Stmt)
     @ alone all_ok 1 [Stmt]
     @ alone all_ok 2 (replicate 3 Stmt)
     @ alone all_ok 2 [Call_init (Some 2) None 1]"

text \<open>
  Then thread 0 posts (line 235), thread 3 locks the mutex of the new block (line 228),
  thread 1 decrements (line 231), and thread 3 decrements, passes the \<^verbatim>\<open>sem_wait\<close> on
  the count that thread 0 has posted, and unlocks in the cleanup handler (line 275).
\<close>

definition sched_stale :: "(env \<times> choice \<times> tid) list" where
  "sched_stale =
     alone all_ok 0 [Stmt]
     @ alone all_ok 3 [Stmt]
     @ alone all_ok 1 [Stmt]
     @ alone all_ok 3 (replicate 7 Stmt)"

text \<open>Variables 0 and 1 hold the destroyed handle.\<close>

fun null_var :: "nat \<Rightarrow> pointer" where
  "null_var 0 = NULL"
| "null_var (Suc 0) = NULL"
| "null_var v = PTW32_OBJECT_AUTO_INIT"

text \<open>A thread that has read \<^verbatim>\<open>b = *barrier\<close> from variable 0 when it held address 0.\<close>

definition stale_thread :: thread where
  "stale_thread = idle_thread\<lparr>arg_barrier := Some 0, loc_b := Ptr 0\<rparr>"

text \<open>The states after \<open>sched_reuse\<close> and after \<open>sched_stale\<close>.\<close>

fun reused_threads :: "tid \<Rightarrow> thread" where
  "reused_threads 0 = stale_thread\<lparr>pc := W235\<rparr>"
| "reused_threads (Suc 0) = stale_thread\<lparr>pc := W231\<rparr>"
| "reused_threads (Suc (Suc 0)) = stale_thread\<lparr>pc := Ret OK\<rparr>"
| "reused_threads (Suc (Suc (Suc 0))) = stale_thread\<lparr>pc := W228\<rparr>"
| "reused_threads t = idle_thread"

definition sys_reused :: sys where
  "sys_reused =
     \<lparr>mem = (mem1 (fresh_block 1))\<lparr>barrier_vars := null_var\<rparr>,
      ptw32_barrier_test_init_lock = None, threads = reused_threads\<rparr>"

definition raced_block :: pthread_barrier_t_ where
  "raced_block = fresh_block 1\<lparr>nCurrentBarrierHeight := - 1\<rparr>"

fun raced_threads :: "tid \<Rightarrow> thread" where
  "raced_threads 0 = stale_thread\<lparr>pc := W243\<rparr>"
| "raced_threads (Suc 0) = stale_thread\<lparr>pc := W233\<rparr>"
| "raced_threads (Suc (Suc 0)) = stale_thread\<lparr>pc := Ret OK\<rparr>"
| "raced_threads (Suc (Suc (Suc 0))) = stale_thread\<lparr>pc := W279\<rparr>"
| "raced_threads t = idle_thread"

definition sys_raced :: sys where
  "sys_raced =
     \<lparr>mem = (mem1 raced_block)\<lparr>barrier_vars := null_var\<rparr>,
      ptw32_barrier_test_init_lock = None, threads = raced_threads\<rparr>"

section \<open>Properties\<close>

lemmas state_defs = goto_def set_result_def set_mem_def upd_thread_def deref_barrier_def
  block_of_def set_block_def store_barrier_def unlock_at_def fault_def store_null_def
  free_barrier_def

lemmas machine_defs = state_defs step_def cancel_def alone_def

lemmas wait_defs = stmt_W213_def stmt_W218_def stmt_W220_def stmt_W226_def stmt_W228_def
  stmt_W231_def stmt_W233_def stmt_W234_def stmt_W235_def stmt_W243_def stmt_W251_def
  stmt_W255_def stmt_W262_def stmt_W265_def stmt_W270_def stmt_W275_def stmt_W279_def
  stmt_N56_def stmt_N66_def stmt_N80_def

lemmas destroy_defs = stmt_D145_def stmt_D150_def stmt_D152_def stmt_D154_def stmt_D163_def
  stmt_D165_def stmt_D166_def stmt_D167_def stmt_D168_def stmt_D176_def stmt_D181_def
  stmt_D200_def stmt_D203_def

lemmas input_defs = all_ok_def mem0_def mem1_def fresh_block_def idle_thread_def sys0_def
  sys1_def

subsection \<open>Construction\<close>

lemma pthread_barrier_init_keeps_vars:
  "pthread_barrier_init e m barrier attr count = Return r m' \<Longrightarrow>
   barrier_vars m' = barrier_vars m"
  by (auto simp: pthread_barrier_init_def Let_def store_barrier_def free_barrier_def
           split: if_splits option.splits)

lemma pthread_barrier_init_builds:
  assumes "pthread_barrier_init e m barrier attr count = Return OK m'"
  shows "\<exists>psh. barriers m' (calloc_addr m) =
           Some \<lparr>nCurrentBarrierHeight = count, nInitialBarrierHeight = count,
                 mtxExclusiveAccess = Mutex None, semBarrierBreeched = Sem psh 0\<rparr>"
  using assms
  by (auto simp: pthread_barrier_init_def Let_def store_barrier_def free_barrier_def
           split: if_splits option.splits)

text \<open>
  Claim C2. A fully successful \<^verbatim>\<open>pthread_barrier_init\<close> should leave the handle of the
  new barrier in the caller's variable. The function has no statement \<^verbatim>\<open>*barrier = b\<close>:
  on the statically initialised variable 0, with every collaborator succeeding and count 2,
  it returns 0, the block of the new barrier is live at address 0, and variable 0 still
  holds \<^verbatim>\<open>PTW32_OBJECT_AUTO_INIT\<close>.
\<close>

theorem init_leaves_handle_slot:
  "pthread_barrier_init all_ok mem0 (Some 0) None 2
     = Return OK (store_barrier 0 (fresh_block 2) (mem0\<lparr>barrier_brk := 1\<rparr>))
   \<and> barrier_vars (store_barrier 0 (fresh_block 2) (mem0\<lparr>barrier_brk := 1\<rparr>)) 0
     = PTW32_OBJECT_AUTO_INIT"
  by (simp add: pthread_barrier_init_def read_pshared_def store_barrier_def calloc_addr_def
        input_defs)

text \<open>
  Claim C4, as amended. With a null \<^verbatim>\<open>barrier\<close> argument \<^verbatim>\<open>pthread_barrier_init\<close>
  returns \<open>EINVAL\<close> and leaves the memory as it was, whatever the count. The count is not
  examined before the block is built.
\<close>

theorem init_null_slot:
  "pthread_barrier_init e m None attr count = Return EINVAL m"
  by (simp add: pthread_barrier_init_def)

text \<open>
  Claim C4 as stated fails for a count of 0: with a non-null variable and every
  collaborator succeeding, the call returns 0 and has built a block of height 0.
\<close>

theorem init_zero_count_accepted:
  "pthread_barrier_init all_ok mem0 (Some 0) None 0
     = Return OK (store_barrier 0 (fresh_block 0) (mem0\<lparr>barrier_brk := 1\<rparr>))
   \<and> pthread_barrier_init all_ok mem0 (Some 0) None 0 \<noteq> Return EINVAL mem0"
  by (simp add: pthread_barrier_init_def read_pshared_def store_barrier_def calloc_addr_def
        input_defs)

subsection \<open>Attributes\<close>

text \<open>
  Claim C8. On a build without \<^verbatim>\<open>_POSIX_THREAD_PROCESS_SHARED\<close>,
  \<^verbatim>\<open>pthread_barrierattr_setpshared\<close> with \<^verbatim>\<open>PTHREAD_PROCESS_SHARED\<close> on a live
  attributes object returns \<open>ENOSYS\<close> and stores \<^verbatim>\<open>PTHREAD_PROCESS_PRIVATE\<close>.
\<close>

theorem setpshared_unsupported:
  assumes "attr_vars m v = Ptr p" and "attrs m p = Some ao"
  shows "pthread_barrierattr_setpshared False m (Some v) PTHREAD_PROCESS_SHARED
         = Return ENOSYS (m\<lparr>attrs := (attrs m)(p \<mapsto> ao\<lparr>pshared := PTHREAD_PROCESS_PRIVATE\<rparr>)\<rparr>)"
  using assms by (simp add: pthread_barrierattr_setpshared_def)

theorem setpshared_unsupported_witness:
  "attr_vars (mem1 (fresh_block 2)) 0 = Ptr 0
   \<and> attrs (mem1 (fresh_block 2)) 0 = Some \<lparr>pshared = PTHREAD_PROCESS_PRIVATE\<rparr>
   \<and> pthread_barrierattr_setpshared False (mem1 (fresh_block 2)) (Some 0) PTHREAD_PROCESS_SHARED
       = Return ENOSYS
           ((mem1 (fresh_block 2))
              \<lparr>attrs := (attrs (mem1 (fresh_block 2)))
                 (0 \<mapsto> \<lparr>pshared = PTHREAD_PROCESS_PRIVATE\<rparr>
                          \<lparr>pshared := PTHREAD_PROCESS_PRIVATE\<rparr>)\<rparr>)"
proof -
  have h: "attr_vars (mem1 (fresh_block 2)) 0 = Ptr 0"
    "attrs (mem1 (fresh_block 2)) 0 = Some \<lparr>pshared = PTHREAD_PROCESS_PRIVATE\<rparr>"
    by (simp_all add: input_defs)
  show ?thesis
    using h setpshared_unsupported[OF h] by blast
qed

text \<open>
  Claim C9. When the allocation fails, \<^verbatim>\<open>pthread_barrierattr_init\<close> should return
  \<open>ENOMEM\<close> without touching the absent object. It sets \<^verbatim>\<open>result = ENOMEM\<close> and then
  executes \<^verbatim>\<open>ba->pshared = PTHREAD_PROCESS_PRIVATE\<close> with \<^verbatim>\<open>ba == NULL\<close>: the call
  faults, for every memory and every \<^verbatim>\<open>attr\<close>.
\<close>

theorem attr_init_alloc_failure_faults:
  "pthread_barrierattr_init False m attr = Fault"
  by (simp add: pthread_barrierattr_init_def)

lemma attr_init_alloc_success:
  "pthread_barrierattr_init True m (Some v)
   = Return OK (m\<lparr>attrs := (attrs m)(attr_brk m \<mapsto> \<lparr>pshared = PTHREAD_PROCESS_PRIVATE\<rparr>),
                  attr_brk := Suc (attr_brk m),
                  attr_vars := (attr_vars m)(v := Ptr (attr_brk m))\<rparr>)"
  by (simp add: pthread_barrierattr_init_def Let_def)

subsection \<open>Calls that return at once\<close>

text \<open>
  Claim C6. \<^verbatim>\<open>pthread_barrier_wait\<close> with a null \<^verbatim>\<open>barrier\<close>, or with a variable that
  holds the destroyed handle, returns \<open>EINVAL\<close> in its first statement: the step exists
  (the thread does not wait), and memory, the critical section and every other thread are
  as before; only the caller's own argument and program counter have changed.
\<close>

theorem wait_invalid_handle:
  assumes "callable (pc (threads s t))"
    and "barrier = None \<or> (\<exists>v. barrier = Some v \<and> barrier_vars (mem s) v = NULL)"
  shows "run [(e, Call_wait barrier, t), (e', Stmt, t)] s
         = Some (upd_thread t (\<lambda>th. th\<lparr>arg_barrier := barrier, pc := Ret EINVAL\<rparr>) s)"
  using assms by (auto simp: machine_defs wait_defs)

theorem wait_invalid_handle_witness:
  "callable (pc (threads (sys1 (fresh_block 2)) 0))
   \<and> barrier_vars (mem (sys1 (fresh_block 2))) 1 = NULL
   \<and> run [(all_ok, Call_wait (Some 1), 0), (all_ok, Stmt, 0)] (sys1 (fresh_block 2))
       = Some (upd_thread 0 (\<lambda>th. th\<lparr>arg_barrier := Some 1, pc := Ret EINVAL\<rparr>)
                 (sys1 (fresh_block 2)))
   \<and> run [(all_ok, Call_wait None, 0), (all_ok, Stmt, 0)] sys0
       = Some (upd_thread 0 (\<lambda>th. th\<lparr>arg_barrier := None, pc := Ret EINVAL\<rparr>) sys0)"
proof -
  have c: "callable (pc (threads (sys1 (fresh_block 2)) 0))"
    and c0: "callable (pc (threads sys0 0))"
    and n: "barrier_vars (mem (sys1 (fresh_block 2))) 1 = NULL"
    by (simp_all add: input_defs)
  from n have d: "Some 1 = None \<or>
      (\<exists>v. Some 1 = Some v \<and> barrier_vars (mem (sys1 (fresh_block 2))) v = NULL)" by simp
  have d0: "None = None \<or> (\<exists>v. None = Some v \<and> barrier_vars (mem sys0) v = NULL)" by simp
  show ?thesis
    using c n wait_invalid_handle[OF c d, of all_ok all_ok]
      wait_invalid_handle[OF c0 d0, of all_ok all_ok]
    by blast
qed

text \<open>
  Claim C10. \<^verbatim>\<open>pthread_barrier_destroy\<close> on a variable that refers to a live barrier
  whose mutex is owned: the \<^verbatim>\<open>pthread_mutex_trylock\<close> of line 154 fails, the body is
  skipped, and the call returns the 0 that \<^verbatim>\<open>result\<close> was initialised with. Memory (the
  variable, the block and its mutex and semaphore) and the critical section are as before;
  only the caller's own locals and program counter have changed.
\<close>

theorem destroy_busy_returns_ok:
  assumes "callable (pc (threads s t))"
    and "barrier_vars (mem s) v = Ptr a"
    and "barriers (mem s) a = Some obj"
    and "mtxExclusiveAccess obj = Mutex (Some t')"
  shows "run (alone e t (Call_destroy (Some v) # replicate 5 Stmt)) s
         = Some (upd_thread t
              (\<lambda>th. th\<lparr>arg_barrier := Some v, loc_result := OK, loc_b := Ptr a, pc := Ret OK\<rparr>) s)"
  using assms by (simp add: machine_defs destroy_defs numeral_eq_Suc)

theorem destroy_busy_returns_ok_witness:
  "callable (pc (threads (sys1 busy_block) 0))
   \<and> barrier_vars (mem (sys1 busy_block)) 0 = Ptr 0
   \<and> barriers (mem (sys1 busy_block)) 0 = Some busy_block
   \<and> mtxExclusiveAccess busy_block = Mutex (Some 1)
   \<and> run (alone all_ok 0 (Call_destroy (Some 0) # replicate 5 Stmt)) (sys1 busy_block)
       = Some (upd_thread 0
            (\<lambda>th. th\<lparr>arg_barrier := Some 0, loc_result := OK, loc_b := Ptr 0, pc := Ret OK\<rparr>)
            (sys1 busy_block))"
proof -
  have h: "callable (pc (threads (sys1 busy_block) 0))"
    "barrier_vars (mem (sys1 busy_block)) 0 = Ptr 0"
    "barriers (mem (sys1 busy_block)) 0 = Some busy_block"
    "mtxExclusiveAccess busy_block = Mutex (Some 1)"
    by (simp_all add: busy_block_def input_defs)
  show ?thesis
    using h destroy_busy_returns_ok[OF h, of all_ok] by blast
qed

subsection \<open>The last arrival\<close>

text \<open>
  Claim C1. A thread calls \<^verbatim>\<open>pthread_barrier_wait\<close> on a variable that holds a live
  barrier whose mutex is free and whose current height the decrement of line 231 drives to
  0. Run alone, it passes through these states, each given in full (memory and threads
  that are not named are those of the start): after the decrement the current height is 0
  and the thread owns the mutex; after line 233 the current height is the initial height,
  the mutex still owned; after line 234 the mutex is free; and after line 235 the semaphore
  holds \<open>nInitialBarrierHeight\<close> counts more than before and the call returns
  \<open>PTHREAD_BARRIER_SERIAL_THREAD\<close>. Line 236 of the source spells the field
  \<^verbatim>\<open>InitialBarrierHeight\<close>; it is read as \<^verbatim>\<open>nInitialBarrierHeight\<close>.
\<close>

theorem wait_last_arrival:
  assumes "callable (pc (threads s t))"
    and "barrier_vars (mem s) v = Ptr a"
    and "barriers (mem s) a = Some obj"
    and "mtxExclusiveAccess obj = Mutex None"
    and "semBarrierBreeched obj = Sem psh n"
    and "nCurrentBarrierHeight obj - 1 = 0"
    and "mutex_lock_ret e = OK"
  shows "run (alone e t (Call_wait (Some v) # replicate 5 Stmt)) s
         = Some (s\<lparr>mem := (mem s)\<lparr>barriers := (barriers (mem s))
                      (a \<mapsto> obj\<lparr>mtxExclusiveAccess := Mutex (Some t),
                                 nCurrentBarrierHeight := 0\<rparr>)\<rparr>,
                   threads := (threads s)
                      (t := (threads s t)\<lparr>arg_barrier := Some v, loc_b := Ptr a,
                                           loc_result := OK, pc := W233\<rparr>)\<rparr>)
       \<and> run (alone e t (Call_wait (Some v) # replicate 6 Stmt)) s
         = Some (s\<lparr>mem := (mem s)\<lparr>barriers := (barriers (mem s))
                      (a \<mapsto> obj\<lparr>mtxExclusiveAccess := Mutex (Some t),
                                 nCurrentBarrierHeight := nInitialBarrierHeight obj\<rparr>)\<rparr>,
                   threads := (threads s)
                      (t := (threads s t)\<lparr>arg_barrier := Some v, loc_b := Ptr a,
                                           loc_result := OK, pc := W234\<rparr>)\<rparr>)
       \<and> run (alone e t (Call_wait (Some v) # replicate 7 Stmt)) s
         = Some (s\<lparr>mem := (mem s)\<lparr>barriers := (barriers (mem s))
                      (a \<mapsto> obj\<lparr>nCurrentBarrierHeight := nInitialBarrierHeight obj,
                                 mtxExclusiveAccess := Mutex None\<rparr>)\<rparr>,
                   threads := (threads s)
                      (t := (threads s t)\<lparr>arg_barrier := Some v, loc_b := Ptr a,
                                           loc_result := OK, pc := W235\<rparr>)\<rparr>)
       \<and> run (alone e t (Call_wait (Some v) # replicate 10 Stmt)) s
         = Some (s\<lparr>mem := (mem s)\<lparr>barriers := (barriers (mem s))
                      (a \<mapsto> obj\<lparr>nCurrentBarrierHeight := nInitialBarrierHeight obj,
                                 mtxExclusiveAccess := Mutex None,
                                 semBarrierBreeched :=
                                   Sem psh (n + sint (nInitialBarrierHeight obj))\<rparr>)\<rparr>,
                   threads := (threads s)
                      (t := (threads s t)\<lparr>arg_barrier := Some v, loc_b := Ptr a,
                                           loc_result := PTHREAD_BARRIER_SERIAL_THREAD,
                                           pc := Ret PTHREAD_BARRIER_SERIAL_THREAD\<rparr>)\<rparr>)"
  using assms by (simp add: machine_defs wait_defs numeral_eq_Suc)

theorem wait_last_arrival_witness:
  "callable (pc (threads (sys1 late_block) 0))
   \<and> barrier_vars (mem (sys1 late_block)) 0 = Ptr 0
   \<and> barriers (mem (sys1 late_block)) 0 = Some late_block
   \<and> mtxExclusiveAccess late_block = Mutex None
   \<and> semBarrierBreeched late_block = Sem PTHREAD_PROCESS_PRIVATE 0
   \<and> nCurrentBarrierHeight late_block - 1 = 0
   \<and> mutex_lock_ret all_ok = OK
   \<and> run (alone all_ok 0 (Call_wait (Some 0) # replicate 10 Stmt)) (sys1 late_block)
       = Some sys_served
   \<and> barriers (mem sys_served) 0 = Some served_block"
proof -
  have h: "callable (pc (threads (sys1 late_block) 0))"
    "barrier_vars (mem (sys1 late_block)) 0 = Ptr 0"
    "barriers (mem (sys1 late_block)) 0 = Some late_block"
    "mtxExclusiveAccess late_block = Mutex None"
    "semBarrierBreeched late_block = Sem PTHREAD_PROCESS_PRIVATE 0"
    "nCurrentBarrierHeight late_block - 1 = 0"
    "mutex_lock_ret all_ok = OK"
    by (simp_all add: late_block_def input_defs)
  have "run (alone all_ok 0 (Call_wait (Some 0) # replicate 10 Stmt)) (sys1 late_block)
       = Some sys_served"
    using wait_last_arrival[OF h]
    by (simp add: sys_served_def served_block_def late_block_def input_defs)
  moreover have "barriers (mem sys_served) 0 = Some served_block"
    by (simp add: sys_served_def input_defs)
  ultimately show ?thesis using h by blast
qed

subsection \<open>The lazy-init helper\<close>

text \<open>
  Lines 56--82 run by one thread alone, the critical section being free: the thread is
  inside the critical section during the test and the call, the three branches return as
  the source says, and the critical section is left before the return. The count that
  \<^verbatim>\<open>pthread_barrier_init\<close> works with is not one the caller has passed.
\<close>

lemma check_need_init_steps:
  assumes "pc (threads s t) = N56"
    and "arg_barrier (threads s t) = Some v"
    and "ptw32_barrier_test_init_lock s = None"
  shows "\<exists>s1 s2 s3.
           step e Stmt t s = Some s1 \<and> step e Stmt t s1 = Some s2 \<and> step e Stmt t s2 = Some s3
         \<and> ptw32_barrier_test_init_lock s1 = Some t \<and> mem s1 = mem s
         \<and> ptw32_barrier_test_init_lock s2 = Some t
         \<and> (barrier_vars (mem s) v = PTW32_OBJECT_AUTO_INIT \<longrightarrow>
              pthread_barrier_init e (mem s) (Some v) None (indeterminate_count e)
                = Return (loc_result (threads s2 t)) (mem s2))
         \<and> (barrier_vars (mem s) v = NULL \<longrightarrow>
              loc_result (threads s2 t) = EINVAL \<and> mem s2 = mem s)
         \<and> (barrier_vars (mem s) v \<noteq> PTW32_OBJECT_AUTO_INIT \<and> barrier_vars (mem s) v \<noteq> NULL \<longrightarrow>
              loc_result (threads s2 t) = OK \<and> mem s2 = mem s)
         \<and> ptw32_barrier_test_init_lock s3 = None \<and> mem s3 = mem s2
         \<and> pc (threads s3 t) = W220
         \<and> loc_result (threads s3 t) = loc_result (threads s2 t)"
proof -
  have nofault: "pthread_barrier_init e (mem s) (Some v) None (indeterminate_count e) \<noteq> Fault"
    by (simp add: pthread_barrier_init_def Let_def read_pshared_def)
  show ?thesis
    using assms nofault
    by (cases "pthread_barrier_init e (mem s) (Some v) None (indeterminate_count e)")
       (auto simp: machine_defs wait_defs)
qed

text \<open>
  Claim C5 fails on the code: the helper does not call \<^verbatim>\<open>pthread_barrier_init\<close> with
  the statically-declared count. Line 68 reads \<^verbatim>\<open>pthread_barrier_init(barrier, NULL)\<close>:
  no count is passed at all. From one and the same state \<open>sys_N56\<close>, the helper builds a
  barrier of height \<open>c\<close> for every value \<open>c\<close> that the callee may find in its parameter;
  nothing in the state of the program determines it. The variable still holds
  \<^verbatim>\<open>PTW32_OBJECT_AUTO_INIT\<close> afterwards.
\<close>

theorem check_need_init_passes_no_count:
  "run (alone (all_ok\<lparr>indeterminate_count := c\<rparr>) 0 (replicate 3 Stmt)) sys_N56
     = Some (sys_N56_done c)
   \<and> barriers (mem (sys_N56_done c)) 1 = Some (fresh_block c)
   \<and> barrier_vars (mem (sys_N56_done c)) 2 = PTW32_OBJECT_AUTO_INIT"
  by (simp add: sys_N56_def sys_N56_done_def machine_defs wait_defs input_defs
        pthread_barrier_init_def read_pshared_def calloc_addr_def numeral_eq_Suc Let_def)

subsection \<open>Cancellation around the semaphore wait\<close>

text \<open>
  Claim C7, as amended. A thread that is not the last arrival, run alone from the decrement
  of line 231, reaches the \<^verbatim>\<open>sem_wait\<close> of line 265, whatever the semaphore holds. There
  its cancellation type is as before, and its cancellation state is disabled if the type is
  deferred and untouched otherwise; a thread of deferred type cannot be cancelled there. If
  the semaphore holds no count the thread is blocked: it has no step. Whenever the blocking
  call returns later, in whatever state the other threads have left the memory, the next
  statement (line 270) puts back the cancellation state the thread had at the start; the
  type has never changed.
\<close>

theorem wait_cancel_state:
  assumes "pc (threads s t) = W231"
    and "loc_b (threads s t) = Ptr a"
    and "barriers (mem s) a = Some obj"
    and "nCurrentBarrierHeight obj - 1 \<noteq> 0"
  shows "\<exists>s4.
           run (alone e t (replicate 4 Stmt)) s = Some s4
         \<and> pc (threads s4 t) = W265
         \<and> canceltype (threads s4 t) = canceltype (threads s t)
         \<and> cancelstate (threads s4 t) =
             (if canceltype (threads s t) = PTHREAD_CANCEL_DEFERRED
              then PTHREAD_CANCEL_DISABLED else cancelstate (threads s t))
         \<and> (canceltype (threads s t) = PTHREAD_CANCEL_DEFERRED \<longrightarrow> cancel t s4 = None)
         \<and> (\<forall>psh n. semBarrierBreeched obj = Sem psh n \<and> n \<le> 0 \<and> sem_wait_errno e = OK
               \<longrightarrow> step e Stmt t s4 = None)
         \<and> (\<forall>s5 e5 s6 e6.
               threads s5 t = threads s4 t \<and> step e5 Stmt t s5 = Some s6
               \<and> pc (threads s6 t) = W270
               \<longrightarrow> (\<exists>s7. step e6 Stmt t s6 = Some s7
                     \<and> pc (threads s7 t) = W275
                     \<and> cancelstate (threads s7 t) = cancelstate (threads s t)
                     \<and> canceltype (threads s7 t) = canceltype (threads s t)))"
  using assms
  by (auto simp: machine_defs wait_defs numeral_eq_Suc Let_def
           split: option.splits pointer.splits if_splits sem_t.splits)

theorem wait_cancel_state_witness:
  "pc (threads sys_W231 0) = W231
   \<and> loc_b (threads sys_W231 0) = Ptr 0
   \<and> barriers (mem sys_W231) 0 = Some waiting_block
   \<and> nCurrentBarrierHeight waiting_block - 1 \<noteq> 0
   \<and> canceltype (threads sys_W231 0) = PTHREAD_CANCEL_DEFERRED
   \<and> cancelstate (threads sys_W231 0) = PTHREAD_CANCEL_ENABLE
   \<and> run (alone all_ok 0 (replicate 4 Stmt)) sys_W231 = Some (sys_W265 0)
   \<and> cancelstate (threads (sys_W265 0) 0) = PTHREAD_CANCEL_DISABLED
   \<and> step all_ok Stmt 0 (sys_W265 0) = None
   \<and> cancel 0 (sys_W265 0) = None
   \<and> (\<exists>s6 s7. step all_ok Stmt 0 (sys_W265 1) = Some s6
         \<and> pc (threads s6 0) = W270
         \<and> step all_ok Stmt 0 s6 = Some s7
         \<and> pc (threads s7 0) = W275
         \<and> cancelstate (threads s7 0) = PTHREAD_CANCEL_ENABLE)"
proof -
  have h: "pc (threads sys_W231 0) = W231"
    "loc_b (threads sys_W231 0) = Ptr 0"
    "barriers (mem sys_W231) 0 = Some waiting_block"
    "nCurrentBarrierHeight waiting_block - 1 \<noteq> 0"
    and k: "canceltype (threads sys_W231 0) = PTHREAD_CANCEL_DEFERRED"
      "cancelstate (threads sys_W231 0) = PTHREAD_CANCEL_ENABLE"
    and sm: "semBarrierBreeched waiting_block = Sem PTHREAD_PROCESS_PRIVATE 0"
      "sem_wait_errno all_ok = OK"
    by (simp_all add: sys_W231_def waiting_block_def input_defs)
  have r: "run (alone all_ok 0 (replicate 4 Stmt)) sys_W231 = Some (sys_W265 0)"
    by (simp add: sys_W231_def sys_W265_def waiting_block_def machine_defs wait_defs input_defs
          numeral_eq_Suc Let_def)
  have same: "threads (sys_W265 1) 0 = threads (sys_W265 0) 0"
    by (simp add: sys_W265_def)
  obtain s6 where s6: "step all_ok Stmt 0 (sys_W265 1) = Some s6" "pc (threads s6 0) = W270"
    by (simp add: sys_W265_def waiting_block_def machine_defs wait_defs input_defs)
  from wait_cancel_state[OF h, of all_ok] r
  have a: "cancelstate (threads (sys_W265 0) 0) = PTHREAD_CANCEL_DISABLED"
    and b: "cancel 0 (sys_W265 0) = None"
    and c: "step all_ok Stmt 0 (sys_W265 0) = None"
    and later: "\<forall>s5 e5 s6 e6.
               threads s5 0 = threads (sys_W265 0) 0 \<and> step e5 Stmt 0 s5 = Some s6
               \<and> pc (threads s6 0) = W270
               \<longrightarrow> (\<exists>s7. step e6 Stmt 0 s6 = Some s7
                     \<and> pc (threads s7 0) = W275
                     \<and> cancelstate (threads s7 0) = cancelstate (threads sys_W231 0)
                     \<and> canceltype (threads s7 0) = canceltype (threads sys_W231 0))"
    using k sm by auto
  from later same s6 k
  have d: "\<exists>s7. step all_ok Stmt 0 s6 = Some s7 \<and> pc (threads s7 0) = W275
            \<and> cancelstate (threads s7 0) = PTHREAD_CANCEL_ENABLE"
    by metis
  show ?thesis using h k r a b c d s6 by blast
qed

text \<open>
  Claim C7 as stated fails for a thread of asynchronous cancellation type: lines 255--259
  disable cancellation only for the deferred type (``Could still be
  \<^verbatim>\<open>PTHREAD_CANCEL_ASYNCHRONOUS\<close>''). Thread 0 of \<open>sys_async\<close> reaches line 265 on a
  barrier of height 2, blocks there (the semaphore holds no count), asynchronous
  cancellation is deliverable, and a cancellation is honoured.
\<close>

theorem wait_async_cancel_deliverable:
  "run (alone all_ok 0 (Call_wait (Some 0) # replicate 8 Stmt)) sys_async = Some blocked_async
   \<and> pc (threads blocked_async 0) = W265
   \<and> async_cancel_deliverable (threads blocked_async 0)
   \<and> step all_ok Stmt 0 blocked_async = None
   \<and> cancel 0 blocked_async \<noteq> None"
  by (simp add: machine_defs wait_defs numeral_eq_Suc Let_def input_defs sys_async_def
        blocked_async_def async_cancel_deliverable_def)

subsection \<open>The heights of a barrier built where another was destroyed\<close>

lemmas race_defs = sched_reuse_def sched_stale_def stale_thread_def
  sys_reused_def raced_block_def sys_raced_def

lemma null_var_eq: "some_vars(0 := NULL) = null_var"
proof (rule ext)
  fix v show "(some_vars(0 := NULL)) v = null_var v"
    by (cases v rule: null_var.cases) simp_all
qed

lemma run_sched_reuse: "run sched_reuse (sys1 (fresh_block 1)) = Some sys_reused"
  apply (simp add: race_defs machine_defs wait_defs destroy_defs input_defs null_var_eq
        pthread_barrier_init_def read_pshared_def calloc_addr_def numeral_eq_Suc Let_def)
  apply (rule ext)
  subgoal for t
    by (cases t rule: reused_threads.cases) (simp_all add: idle_thread_def stale_thread_def)
  done

lemma run_sched_stale: "run sched_stale sys_reused = Some sys_raced"
  apply (simp add: race_defs machine_defs wait_defs destroy_defs input_defs
        numeral_eq_Suc Let_def)
  apply (rule ext)
  subgoal for t
    by (cases t rule: raced_threads.cases) (simp_all add: idle_thread_def stale_thread_def)
  done

text \<open>
  Claim C3 fails on the code. \<^verbatim>\<open>pthread_barrier_destroy\<close> frees the block while waiters
  that have read \<^verbatim>\<open>b = *barrier\<close> still hold its address (the race that the comment on
  lines 156--162 of the source describes), and \<^verbatim>\<open>pthread_barrier_init\<close> builds the next
  barrier at the address \<^verbatim>\<open>calloc\<close> returns, which may be that one. After \<open>sched_reuse\<close>
  address 0 holds a new barrier, built with count 1, at which no thread has arrived. After
  \<open>sched_stale\<close> that barrier has initial height 1 and current height \<open>- 1\<close> while its
  mutex is free: \<open>0 \<le> currentHeight\<close> does not hold at a point where the exclusive lock
  is not held. Every collaborator succeeds in both schedules.
\<close>

theorem stale_waiter_breaks_height:
  "run sched_reuse (sys1 (fresh_block 1)) = Some sys_reused
   \<and> barriers (mem sys_reused) 0 = Some (fresh_block 1)
   \<and> run sched_stale sys_reused = Some sys_raced
   \<and> barriers (mem sys_raced) 0 = Some raced_block
   \<and> 0 <s nInitialBarrierHeight raced_block
   \<and> mtxExclusiveAccess raced_block = Mutex None
   \<and> nCurrentBarrierHeight raced_block = - 1
   \<and> \<not> 0 \<le>s nCurrentBarrierHeight raced_block"
  using run_sched_reuse run_sched_stale
  by (simp add: sys_reused_def sys_raced_def raced_block_def input_defs word_sle_eq
        word_sless_alt)

end
